theory Spec2Isabelle
  imports Main "HOL-Library.Sublist"
begin

section \<open>Python values and exceptions\<close>

text \<open>
  The exceptions of the list operations.  A function that can raise returns
  \<open>py_error + 'a\<close>, with \<open>Inl\<close> for the exception.
\<close>

datatype py_error = ValueError | IndexError

text \<open>
  The values \<open>json.loads\<close> produces (and the \<open>dict\<close> fields of the pydantic
  models).  A number is an integer here.  A JSON object is kept as the list of its
  items; \<open>dict_get\<close> is \<open>d.get(k)\<close>.
\<close>

datatype json =
    JNull
  | JBool bool
  | JNum int
  | JStr string
  | JArr "json list"
  | JObj "(string \<times> json) list"

type_synonym py_dict = "(string \<times> json) list"

definition dict_get :: "py_dict \<Rightarrow> string \<Rightarrow> json option" where
  "dict_get d k = map_of d k"

text \<open>\<open>xs.index(x)\<close>: the first position of \<open>x\<close>, or \<open>ValueError\<close>.\<close>

fun list_index :: "'a list \<Rightarrow> 'a \<Rightarrow> py_error + int" where
  "list_index [] x = Inl ValueError"
| "list_index (y # ys) x =
     (if y = x then Inr 0
      else (case list_index ys x of Inl e \<Rightarrow> Inl e | Inr i \<Rightarrow> Inr (i + 1)))"

text \<open>\<open>xs[i]\<close> for a Python integer \<open>i\<close>: a negative index counts from the end.\<close>

definition py_getitem :: "'a list \<Rightarrow> int \<Rightarrow> py_error + 'a" where
  "py_getitem xs i =
     (if i < - int (length xs) \<or> int (length xs) \<le> i then Inl IndexError
      else if i < 0 then Inr (xs ! nat (int (length xs) + i))
      else Inr (xs ! nat i))"

section \<open>models.py\<close>

record TurnBlock =
  block_id :: string
  block_turn_id :: string
  block_type :: string
  block_sequence :: int
  block_text_content :: "string option"
  block_content :: "py_dict option"
  block_created_at :: nat

record Turn =
  id' :: string
  chat_id :: string
  prev_turn_id :: "string option"
  role :: string
  status :: string
  error :: "string option"
  model :: "string option"
  input_tokens :: "int option"
  output_tokens :: "int option"
  created_at :: nat
  completed_at :: "nat option"
  request_params :: "py_dict option"
  stop_reason :: "string option"
  response_metadata :: "py_dict option"
  blocks :: "TurnBlock list"
  sibling_ids :: "string list"

record PaginatedTurnsResponse =
  turns :: "Turn list"
  has_more_before :: bool
  has_more_after :: bool

text \<open>
  \<open>Turn.sibling_index\<close>: \<open>sibling_ids.index(id)\<close>, with \<open>ValueError\<close> caught and
  replaced by 0; any other exception would propagate.
\<close>

definition sibling_index :: "Turn \<Rightarrow> py_error + int" where
  "sibling_index t =
     (case list_index (sibling_ids t) (id' t) of
        Inr i \<Rightarrow> Inr i
      | Inl e \<Rightarrow> (if e = ValueError then Inr 0 else Inl e))"

section \<open>navigation.py\<close>

text \<open>
  The properties of \<open>NavigationState\<close>.  Its property \<open>prev_turn_id\<close> is
  \<open>nav_prev_turn_id\<close> here, since the field of \<open>Turn\<close> has that name; the
  field \<open>id\<close> of a turn is \<open>id'\<close>.
\<close>

record NavigationState =
  current :: Turn
  response :: PaginatedTurnsResponse

definition can_go_up :: "NavigationState \<Rightarrow> bool" where
  "can_go_up ns = (prev_turn_id (current ns) \<noteq> None)"

definition nav_prev_turn_id :: "NavigationState \<Rightarrow> string option" where
  "nav_prev_turn_id ns = prev_turn_id (current ns)"

definition can_go_down :: "NavigationState \<Rightarrow> bool" where
  "can_go_down ns = (int (length (turns (response ns))) > 1)"

definition next_turn_id :: "NavigationState \<Rightarrow> py_error + string option" where
  "next_turn_id ns =
     (if int (length (turns (response ns))) > 1
      then (case py_getitem (turns (response ns)) 1 of
              Inl e \<Rightarrow> Inl e
            | Inr t \<Rightarrow> Inr (Some (id' t)))
      else Inr None)"

definition can_go_left :: "NavigationState \<Rightarrow> py_error + bool" where
  "can_go_left ns =
     (case sibling_index (current ns) of Inl e \<Rightarrow> Inl e | Inr idx \<Rightarrow> Inr (idx > 0))"

definition prev_sibling_id :: "NavigationState \<Rightarrow> py_error + string option" where
  "prev_sibling_id ns =
     (case sibling_index (current ns) of
        Inl e \<Rightarrow> Inl e
      | Inr idx \<Rightarrow>
          (if idx > 0
           then (case py_getitem (sibling_ids (current ns)) (idx - 1) of
                   Inl e \<Rightarrow> Inl e
                 | Inr s \<Rightarrow> Inr (Some s))
           else Inr None))"

definition can_go_right :: "NavigationState \<Rightarrow> py_error + bool" where
  "can_go_right ns =
     (case sibling_index (current ns) of
        Inl e \<Rightarrow> Inl e
      | Inr idx \<Rightarrow> Inr (idx < int (length (sibling_ids (current ns))) - 1))"

definition next_sibling_id :: "NavigationState \<Rightarrow> py_error + string option" where
  "next_sibling_id ns =
     (case sibling_index (current ns) of
        Inl e \<Rightarrow> Inl e
      | Inr idx \<Rightarrow>
          (if idx < int (length (sibling_ids (current ns))) - 1
           then (case py_getitem (sibling_ids (current ns)) (idx + 1) of
                   Inl e \<Rightarrow> Inl e
                 | Inr s \<Rightarrow> Inr (Some s))
           else Inr None))"

section \<open>screens/turn_browser.py\<close>

text \<open>
  What an awaited call can raise: an instance of a subclass of \<open>Exception\<close> (class
  name and message), or \<open>asyncio.CancelledError\<close>, which derives from
  \<open>BaseException\<close> and is therefore not caught by \<open>except Exception\<close>.
\<close>

datatype py_exc = Exc string string | CancelledError

text \<open>The outcome of \<open>await self.app.api_client.get_turns(...)\<close>.\<close>

datatype fetch_result = FetchOk PaginatedTurnsResponse | FetchRaises py_exc

text \<open>
  The display box holds what was written to it since the last \<open>clear()\<close>.
  \<open>update_display\<close> writes lines computed from \<open>current_turn\<close> and \<open>nav_state\<close>
  only; \<open>TurnView\<close> records the pair it rendered instead of the lines.
\<close>

datatype display_item = Markup string | TurnView Turn "NavigationState option"

datatype task_state = InFlight | CancelRequested | Finished | Failed | Cancelled

record nav_task =
  task_target :: string
  task_state :: task_state

text \<open>
  The screen.  \<open>tasks\<close> are the tasks made by \<open>asyncio.create_task\<close> so far, in
  order; \<open>navigation_task\<close> is the reference \<open>self._navigation_task\<close>, a position
  in \<open>tasks\<close>.  \<open>waiters\<close> are the calls of \<open>navigate_to_turn\<close> that are
  suspended at \<open>await self._navigation_task\<close> after \<open>cancel()\<close>: the turn id
  each was called with and the task it awaits.  \<open>notifications\<close> are the calls of
  \<open>self.app.notify\<close> (message and severity).
\<close>

record TurnBrowserScreen =
  current_turn :: "Turn option"
  nav_state :: "NavigationState option"
  screen_chat_id :: "string option"
  navigation_task :: "nat option"
  tasks :: "nav_task list"
  waiters :: "(string \<times> nat) list"
  display_box :: "display_item list"
  input_disabled :: bool
  input_tooltip :: "string option"
  input_focused :: bool
  notifications :: "(string \<times> string) list"

text \<open>\<open>__init__\<close> and the class-level reactive defaults.\<close>

definition TurnBrowserScreen_init :: TurnBrowserScreen where
  "TurnBrowserScreen_init =
     \<lparr>current_turn = None, nav_state = None, screen_chat_id = None,
      navigation_task = None, tasks = [], waiters = [], display_box = [],
      input_disabled = False,
      input_tooltip = None, input_focused = False, notifications = []\<rparr>"

text \<open>Truthiness of a \<open>str | None\<close> value.\<close>

definition str_truthy :: "string option \<Rightarrow> bool" where
  "str_truthy v = (case v of None \<Rightarrow> False | Some s \<Rightarrow> s \<noteq> [])"

definition update_display :: "TurnBrowserScreen \<Rightarrow> TurnBrowserScreen" where
  "update_display st =
     (case current_turn st of
        None \<Rightarrow> st\<lparr>display_box := []\<rparr>
      | Some t \<Rightarrow> st\<lparr>display_box := [TurnView t (nav_state st)]\<rparr>)"

definition watch_current_turn :: "TurnBrowserScreen \<Rightarrow> Turn option \<Rightarrow> TurnBrowserScreen" where
  "watch_current_turn st turn =
     (case turn of
        None \<Rightarrow> st
      | Some t \<Rightarrow>
          (if str_truthy (error t)
           then (update_display st)\<lparr>input_disabled := True,
                  input_tooltip := Some (''Turn has error: '' @ the (error t))\<rparr>
           else (update_display st)\<lparr>input_disabled := False, input_tooltip := None\<rparr>))"

text \<open>
  Assignment to the reactive attribute \<open>current_turn\<close>: the value is stored and the
  watcher runs only when the new value differs from the old one.  \<open>nav_state\<close> has no
  watcher.
\<close>

definition set_current_turn :: "TurnBrowserScreen \<Rightarrow> Turn option \<Rightarrow> TurnBrowserScreen" where
  "set_current_turn st v =
     (if current_turn st = v then st
      else watch_current_turn (st\<lparr>current_turn := v\<rparr>) v)"

definition set_nav_state :: "TurnBrowserScreen \<Rightarrow> NavigationState option \<Rightarrow> TurnBrowserScreen" where
  "set_nav_state st v = st\<lparr>nav_state := v\<rparr>"

definition notify :: "TurnBrowserScreen \<Rightarrow> string \<Rightarrow> string \<Rightarrow> TurnBrowserScreen" where
  "notify st msg severity = st\<lparr>notifications := notifications st @ [(msg, severity)]\<rparr>"

text \<open>\<open>str(e)\<close> for a caught exception.\<close>

fun exc_str :: "py_exc \<Rightarrow> string" where
  "exc_str (Exc cls msg) = msg"
| "exc_str CancelledError = []"

text \<open>
  \<open>on_mount\<close>, given the chat id of the application and the outcome of the first
  fetch.  The \<open>try\<close> block is \<open>on_mount_try\<close>; \<open>Inl\<close> is the exception leaving it.
\<close>

definition on_mount_try :: "TurnBrowserScreen \<Rightarrow> fetch_result \<Rightarrow> py_exc + TurnBrowserScreen" where
  "on_mount_try st r =
     (case r of
        FetchRaises x \<Rightarrow> Inl x
      | FetchOk resp \<Rightarrow>
          (case turns resp of
             t # _ \<Rightarrow>
               Inr ((update_display
                      (set_current_turn
                        (set_nav_state st (Some \<lparr>current = t, response = resp\<rparr>))
                        (Some t)))\<lparr>input_focused := True\<rparr>)
           | [] \<Rightarrow>
               Inr (st\<lparr>display_box := display_box st @
                          [Markup ''[dim]No turns in this chat yet. Start typing below![/dim]''],
                        input_focused := True\<rparr>)))"

definition on_mount ::
  "TurnBrowserScreen \<Rightarrow> string option \<Rightarrow> fetch_result \<Rightarrow> py_exc + TurnBrowserScreen" where
  "on_mount st app_chat_id r =
     (case on_mount_try (st\<lparr>screen_chat_id := app_chat_id\<rparr>) r of
        Inr st' \<Rightarrow> Inr st'
      | Inl CancelledError \<Rightarrow> Inl CancelledError
      | Inl (Exc cls msg) \<Rightarrow>
          Inr (notify (st\<lparr>screen_chat_id := app_chat_id\<rparr>)
                 (''Error loading turns: '' @ exc_str (Exc cls msg)) ''error''))"

text \<open>
  \<open>_do_navigate\<close>, given the outcome of its fetch.  \<open>Inl\<close> is an exception that leaves
  the coroutine.
\<close>

definition do_navigate_try :: "TurnBrowserScreen \<Rightarrow> fetch_result \<Rightarrow> py_exc + TurnBrowserScreen" where
  "do_navigate_try st r =
     (case r of
        FetchRaises x \<Rightarrow> Inl x
      | FetchOk resp \<Rightarrow>
          (case turns resp of
             t # _ \<Rightarrow>
               Inr (set_current_turn
                      (set_nav_state st (Some \<lparr>current = t, response = resp\<rparr>))
                      (Some t))
           | [] \<Rightarrow> Inr st))"

definition do_navigate :: "TurnBrowserScreen \<Rightarrow> fetch_result \<Rightarrow> py_exc + TurnBrowserScreen" where
  "do_navigate st r =
     (case do_navigate_try st r of
        Inr st' \<Rightarrow> Inr st'
      | Inl CancelledError \<Rightarrow> Inl CancelledError
      | Inl (Exc cls msg) \<Rightarrow>
          Inr (notify st (''Navigation error: '' @ exc_str (Exc cls msg)) ''error''))"

text \<open>
  The four key actions.  Each returns the turn id it passes to \<open>navigate_to_turn\<close>, or
  \<open>None\<close> when it does nothing; \<open>and\<close> evaluates left to right and stops early.
\<close>

definition action_navigate_up :: "TurnBrowserScreen \<Rightarrow> py_error + string option" where
  "action_navigate_up st =
     (case nav_state st of
        None \<Rightarrow> Inr None
      | Some ns \<Rightarrow>
          (if can_go_up ns \<and> str_truthy (nav_prev_turn_id ns)
           then Inr (nav_prev_turn_id ns) else Inr None))"

definition action_navigate_down :: "TurnBrowserScreen \<Rightarrow> py_error + string option" where
  "action_navigate_down st =
     (case nav_state st of
        None \<Rightarrow> Inr None
      | Some ns \<Rightarrow>
          (if can_go_down ns
           then (case next_turn_id ns of
                   Inl e \<Rightarrow> Inl e
                 | Inr v \<Rightarrow> (if str_truthy v then Inr v else Inr None))
           else Inr None))"

definition action_navigate_left :: "TurnBrowserScreen \<Rightarrow> py_error + string option" where
  "action_navigate_left st =
     (case nav_state st of
        None \<Rightarrow> Inr None
      | Some ns \<Rightarrow>
          (case can_go_left ns of
             Inl e \<Rightarrow> Inl e
           | Inr False \<Rightarrow> Inr None
           | Inr True \<Rightarrow>
               (case prev_sibling_id ns of
                  Inl e \<Rightarrow> Inl e
                | Inr v \<Rightarrow> (if str_truthy v then Inr v else Inr None))))"

definition action_navigate_right :: "TurnBrowserScreen \<Rightarrow> py_error + string option" where
  "action_navigate_right st =
     (case nav_state st of
        None \<Rightarrow> Inr None
      | Some ns \<Rightarrow>
          (case can_go_right ns of
             Inl e \<Rightarrow> Inl e
           | Inr False \<Rightarrow> Inr None
           | Inr True \<Rightarrow>
               (case next_sibling_id ns of
                  Inl e \<Rightarrow> Inl e
                | Inr v \<Rightarrow> (if str_truthy v then Inr v else Inr None))))"


subsection \<open>Navigation tasks\<close>

text \<open>
  \<open>navigate_to_turn\<close> and \<open>_do_navigate\<close> run as cooperatively scheduled
  coroutines; the screen changes only between two suspension points.  A task made
  for \<open>_do_navigate\<close> is suspended at its only await, the fetch, until the fetch
  completes or the task is cancelled; everything after the fetch runs without a
  further suspension.  \<open>navigate_to_turn\<close> is suspended at
  \<open>await self._navigation_task\<close> after \<open>cancel()\<close>, until the cancelled task
  has settled, and other coroutines run in between.  Each definition below is one
  such piece.
\<close>

definition set_task_state :: "TurnBrowserScreen \<Rightarrow> nat \<Rightarrow> task_state \<Rightarrow> TurnBrowserScreen" where
  "set_task_state st k s = st\<lparr>tasks := (tasks st)[k := (tasks st ! k)\<lparr>task_state := s\<rparr>]\<rparr>"

text \<open>\<open>task.done()\<close>.\<close>

definition task_done :: "task_state \<Rightarrow> bool" where
  "task_done s = (s = Finished \<or> s = Failed \<or> s = Cancelled)"

text \<open>
  \<open>self._navigation_task = asyncio.create_task(self._do_navigate(turn_id))\<close>; the
  caller then awaits this task, which changes nothing.
\<close>

definition create_task :: "TurnBrowserScreen \<Rightarrow> string \<Rightarrow> TurnBrowserScreen" where
  "create_task st turn_id =
     st\<lparr>tasks := tasks st @ [\<lparr>task_target = turn_id, task_state = InFlight\<rparr>],
        navigation_task := Some (length (tasks st))\<rparr>"

text \<open>
  A call of \<open>navigate_to_turn\<close>, up to its first suspension.  When the task in
  \<open>_navigation_task\<close> is not done, \<open>cancel()\<close> requests its cancellation and the
  call is suspended awaiting it; no task is made yet.  Otherwise the new task is
  made at once.
\<close>

definition navigate_to_turn :: "TurnBrowserScreen \<Rightarrow> string \<Rightarrow> TurnBrowserScreen" where
  "navigate_to_turn st turn_id =
     (case navigation_task st of
        None \<Rightarrow> create_task st turn_id
      | Some k \<Rightarrow>
          (if k < length (tasks st) \<and> \<not> task_done (task_state (tasks st ! k))
           then (set_task_state st k CancelRequested)\<lparr>waiters := waiters st @ [(turn_id, k)]\<rparr>
           else create_task st turn_id))"

text \<open>
  Task \<open>k\<close> resumes with the outcome \<open>r\<close> of its await and runs \<open>_do_navigate\<close>
  to its end: it ends finished when the coroutine returns, cancelled when
  \<open>CancelledError\<close> leaves it, failed when another exception does.
\<close>

definition run_task :: "TurnBrowserScreen \<Rightarrow> nat \<Rightarrow> fetch_result \<Rightarrow> TurnBrowserScreen" where
  "run_task st k r =
     (case do_navigate st r of
        Inr st' \<Rightarrow> set_task_state st' k Finished
      | Inl CancelledError \<Rightarrow> set_task_state st k Cancelled
      | Inl (Exc cls msg) \<Rightarrow> set_task_state st k Failed)"

text \<open>
  The event loop runs task \<open>k\<close> after \<open>cancel()\<close>: \<open>CancelledError\<close> is raised
  inside the coroutine at its await.
\<close>

definition settle :: "TurnBrowserScreen \<Rightarrow> nat \<Rightarrow> TurnBrowserScreen" where
  "settle st k =
     (if k < length (tasks st) \<and> task_state (tasks st ! k) = CancelRequested
      then run_task st k (FetchRaises CancelledError)
      else st)"

text \<open>
  The fetch of task \<open>k\<close> completes with outcome \<open>r\<close>: a task still suspended at its
  fetch resumes with it.  A task whose cancellation was requested, or that is done,
  has had its request aborted, and the outcome reaches nothing.
\<close>

definition resolve :: "TurnBrowserScreen \<Rightarrow> nat \<Rightarrow> fetch_result \<Rightarrow> TurnBrowserScreen" where
  "resolve st k r =
     (if k < length (tasks st) \<and> task_state (tasks st ! k) = InFlight
      then run_task st k r
      else st)"

text \<open>
  The suspended call at position \<open>i\<close> of \<open>waiters\<close> resumes, once the task it
  awaits is done.  \<open>CancelledError\<close> from the await is swallowed by
  \<open>except asyncio.CancelledError: pass\<close>, and the call goes on to make its task;
  the exception of a failed task is raised again by the await and ends the call.
\<close>

definition resume_navigate :: "TurnBrowserScreen \<Rightarrow> nat \<Rightarrow> TurnBrowserScreen" where
  "resume_navigate st i =
     (if i < length (waiters st)
         \<and> snd (waiters st ! i) < length (tasks st)
         \<and> task_done (task_state (tasks st ! snd (waiters st ! i)))
      then (if task_state (tasks st ! snd (waiters st ! i)) = Failed
            then st\<lparr>waiters := take i (waiters st) @ drop (Suc i) (waiters st)\<rparr>
            else create_task
                   (st\<lparr>waiters := take i (waiters st) @ drop (Suc i) (waiters st)\<rparr>)
                   (fst (waiters st ! i)))
      else st)"


section \<open>api_client.py: the event stream\<close>

text \<open>
  \<open>stream_turn\<close> reads the response line by line (\<open>aiter_lines\<close> gives each line
  without its line ending) and keeps two local variables, \<open>event_type\<close> and
  \<open>data_lines\<close>.  \<open>json.loads\<close> belongs to the Python library: it is the parameter
  \<open>loads\<close>, with \<open>None\<close> for \<open>JSONDecodeError\<close>.
\<close>

type_synonym sse_state = "string option \<times> string list"

datatype sse_out = NoOutput | Yield string py_dict | WarnMalformed string

text \<open>\<open>"\n".join(data_lines)\<close>.\<close>

fun join_lines :: "string list \<Rightarrow> string" where
  "join_lines [] = []"
| "join_lines [l] = l"
| "join_lines (l # m # ls) = l @ ''\<newline>'' @ join_lines (m # ls)"

definition py_type_name :: "json \<Rightarrow> string" where
  "py_type_name v =
     (case v of JNull \<Rightarrow> ''NoneType'' | JBool b \<Rightarrow> ''bool'' | JNum n \<Rightarrow> ''int''
      | JStr s \<Rightarrow> ''str'' | JArr xs \<Rightarrow> ''list'' | JObj d \<Rightarrow> ''dict'')"

text \<open>
  The debug logging between \<open>json.loads\<close> and \<open>yield\<close>, which reads the parsed
  value: \<open>data.get\<close> and \<open>len(data.get("text_delta", ""))\<close> for a
  \<open>block_delta\<close>, \<open>data.keys()\<close> otherwise.  It returns the dictionary to yield,
  or the exception it raises (none of them is a \<open>JSONDecodeError\<close>).
\<close>

definition log_event :: "string \<Rightarrow> json \<Rightarrow> py_exc + py_dict" where
  "log_event event_type data_v =
     (if event_type = ''block_delta''
      then (case data_v of
              JObj d \<Rightarrow>
                (case dict_get d ''text_delta'' of
                   None \<Rightarrow> Inr d
                 | Some (JStr s) \<Rightarrow> Inr d
                 | Some (JArr xs) \<Rightarrow> Inr d
                 | Some (JObj o') \<Rightarrow> Inr d
                 | Some v \<Rightarrow>
                     Inl (Exc ''TypeError''
                           (''object of type '' @ [CHR 0x27] @ py_type_name v @ [CHR 0x27]
                              @ '' has no len()'')))
            | v \<Rightarrow>
                Inl (Exc ''AttributeError''
                      ([CHR 0x27] @ py_type_name v @ [CHR 0x27]
                         @ '' object has no attribute '' @ [CHR 0x27] @ ''get'' @ [CHR 0x27])))
      else (case data_v of
              JObj d \<Rightarrow> Inr d
            | v \<Rightarrow>
                Inl (Exc ''AttributeError''
                      ([CHR 0x27] @ py_type_name v @ [CHR 0x27]
                         @ '' object has no attribute '' @ [CHR 0x27] @ ''keys'' @ [CHR 0x27]))))"

text \<open>One line of the response: the new local variables and what the generator does.\<close>

definition sse_line ::
  "(string \<Rightarrow> json option) \<Rightarrow> sse_state \<Rightarrow> string \<Rightarrow> py_exc + (sse_state \<times> sse_out)" where
  "sse_line loads st line =
     (if prefix ''event: '' line then Inr ((Some (drop 7 line), snd st), NoOutput)
      else if prefix ''data: '' line then Inr ((fst st, snd st @ [drop 6 line]), NoOutput)
      else if line = [] then
        (if str_truthy (fst st) \<and> snd st \<noteq> []
         then (case loads (join_lines (snd st)) of
                 None \<Rightarrow> Inr ((None, []), WarnMalformed (join_lines (snd st)))
               | Some v \<Rightarrow>
                   (case log_event (the (fst st)) v of
                      Inl x \<Rightarrow> Inl x
                    | Inr d \<Rightarrow> Inr ((None, []), Yield (the (fst st)) d)))
         else Inr (st, NoOutput))
      else Inr (st, NoOutput))"

text \<open>
  The loop over the lines: the outputs in order, and the exception that ended the
  generator, if one did.
\<close>

fun sse_lines ::
  "(string \<Rightarrow> json option) \<Rightarrow> sse_state \<Rightarrow> string list \<Rightarrow> sse_out list \<times> py_exc option" where
  "sse_lines loads st [] = ([], None)"
| "sse_lines loads st (line # rest) =
     (case sse_line loads st line of
        Inl x \<Rightarrow> ([], Some x)
      | Inr (st', out) \<Rightarrow>
          (case sse_lines loads st' rest of (outs, end) \<Rightarrow> (out # outs, end)))"

text \<open>The events the consumer receives, and the logged warnings.\<close>

fun yielded :: "sse_out list \<Rightarrow> (string \<times> py_dict) list" where
  "yielded [] = []"
| "yielded (Yield n d # outs) = (n, d) # yielded outs"
| "yielded (out # outs) = yielded outs"

fun warnings :: "sse_out list \<Rightarrow> string list" where
  "warnings [] = []"
| "warnings (WarnMalformed s # outs) = s # warnings outs"
| "warnings (out # outs) = warnings outs"

text \<open>
  \<open>stream_turn\<close> on a response that connected: \<open>event_type = None\<close> and
  \<open>data_lines = []\<close> at the start.
\<close>

definition stream_turn ::
  "(string \<Rightarrow> json option) \<Rightarrow> string list \<Rightarrow> sse_out list \<times> py_exc option" where
  "stream_turn loads lines = sse_lines loads (None, []) lines"

text \<open>The lines of one frame of the wire protocol: \<open>event: name\<close>, the data lines, a blank line.\<close>

definition sse_frame :: "string \<Rightarrow> string list \<Rightarrow> string list" where
  "sse_frame name ds = (''event: '' @ name) # map (\<lambda>d. ''data: '' @ d) ds @ [[]]"

section \<open>screens/streaming.py\<close>

text \<open>
  The payload of an event as the consumer reads it.  The protocol gives the four
  fields string values; \<open>None\<close> is a field that is absent or \<open>null\<close> (both are falsy
  where the code tests them, and both compare unequal to every string).
\<close>

record event_data =
  d_block_type :: "string option"
  d_delta_type :: "string option"
  d_text_delta :: "string option"
  d_input_json_delta :: "string option"

record stream_event =
  event_name :: string
  event_data :: event_data

text \<open>
  Where the worker that runs \<open>start_streaming\<close> stands: not started, suspended in
  the \<open>async for\<close> loop waiting for the next event, suspended in
  \<open>asyncio.sleep\<close> before the \<open>dismiss\<close> with the given result, or done.
\<close>

datatype worker_state = NotStarted | Streaming | Sleeping "string option" | WorkerDone

text \<open>
  The screen while \<open>start_streaming\<close> runs.  \<open>content\<close> is the text of the
  \<open>Text\<close> object (styles are left out), \<open>current_block_type\<close> and \<open>event_count\<close>
  are the other locals; \<open>streaming_box\<close> is what the last \<open>display.update\<close>
  passed to the widget.  The next fields record the calls of \<open>notify\<close>,
  \<open>asyncio.sleep\<close>, \<open>interrupt_turn\<close> and \<open>dismiss\<close>, in order.
  \<open>cancels_pending\<close> counts the calls of \<open>action_cancel\<close> that are suspended
  at \<open>await interrupt_turn\<close>.
\<close>

record StreamingScreen =
  assistant_turn_id :: string
  content :: string
  current_block_type :: "string option"
  event_count :: int
  streaming_box :: "string option"
  stream_notifications :: "(string \<times> string) list"
  sleeps :: "int list"
  interrupt_calls :: "string list"
  dismissed :: "string option list"
  worker :: worker_state
  cancels_pending :: nat

text \<open>
  \<open>content.append(text)\<close> for a \<open>str\<close>: the \<open>Text\<close> class removes the control
  codes 7, 8, 11, 12 and 13 (bell, backspace, vertical tab, form feed, carriage
  return) from the string and appends what is left.
\<close>

definition strip_control_codes :: "string \<Rightarrow> string" where
  "strip_control_codes txt =
     filter (\<lambda>c. c \<notin> set [CHR 0x07, CHR 0x08, CHR 0x0B, CHR 0x0C, CHR 0x0D]) txt"

definition content_append :: "StreamingScreen \<Rightarrow> string \<Rightarrow> StreamingScreen" where
  "content_append st txt = st\<lparr>content := content st @ strip_control_codes txt\<rparr>"

definition display_update :: "StreamingScreen \<Rightarrow> StreamingScreen" where
  "display_update st = st\<lparr>streaming_box := Some (content st)\<rparr>"

definition block_label :: "string \<Rightarrow> string" where
  "block_label bt =
     (if bt = ''thinking'' then ''[thinking]\<newline>''
      else if bt = ''text'' then ''[text]\<newline>''
      else ''['' @ bt @ '']\<newline>'')"

definition on_block_start :: "StreamingScreen \<Rightarrow> event_data \<Rightarrow> StreamingScreen" where
  "on_block_start st d =
     (if d_block_type d \<noteq> current_block_type st
      then display_update
             (if str_truthy (d_block_type d)
              then content_append (st\<lparr>current_block_type := d_block_type d\<rparr>)
                     (block_label (the (d_block_type d)))
              else st\<lparr>current_block_type := d_block_type d\<rparr>)
      else st)"

text \<open>The first part of the \<open>block_delta\<close> branch: a block type carried by the delta.\<close>

definition delta_switch :: "StreamingScreen \<Rightarrow> event_data \<Rightarrow> StreamingScreen" where
  "delta_switch st d =
     (if str_truthy (d_block_type d) \<and> d_block_type d \<noteq> current_block_type st
      then display_update
             (content_append (st\<lparr>current_block_type := d_block_type d\<rparr>)
                (block_label (the (d_block_type d))))
      else st)"

text \<open>The second part: the payload, by \<open>delta_type\<close>.\<close>

definition delta_payload :: "StreamingScreen \<Rightarrow> event_data \<Rightarrow> StreamingScreen" where
  "delta_payload st d =
     (if d_delta_type d = Some ''text_delta'' \<or> d_delta_type d = Some ''thinking_delta''
      then (if str_truthy (d_text_delta d)
               \<and> (current_block_type st = Some ''thinking'' \<or> current_block_type st = Some ''text'')
            then display_update (content_append st (the (d_text_delta d)))
            else st)
      else if d_delta_type d = Some ''input_json_delta''
      then (if str_truthy (d_input_json_delta d)
               \<and> (current_block_type st = Some ''tool_use''
                    \<or> current_block_type st = Some ''tool_result'')
            then display_update (content_append st (the (d_input_json_delta d)))
            else st)
      else st)"

definition on_block_delta :: "StreamingScreen \<Rightarrow> event_data \<Rightarrow> StreamingScreen" where
  "on_block_delta st d = delta_payload (delta_switch st d) d"

text \<open>The body of the \<open>async for\<close> loop, for one event.\<close>

definition process_event :: "StreamingScreen \<Rightarrow> stream_event \<Rightarrow> StreamingScreen" where
  "process_event st ev =
     (if event_name ev = ''block_start''
      then on_block_start (st\<lparr>event_count := event_count st + 1\<rparr>) (event_data ev)
      else if event_name ev = ''block_delta''
      then on_block_delta (st\<lparr>event_count := event_count st + 1\<rparr>) (event_data ev)
      else st\<lparr>event_count := event_count st + 1\<rparr>)"

fun process_events :: "StreamingScreen \<Rightarrow> stream_event list \<Rightarrow> StreamingScreen" where
  "process_events st [] = st"
| "process_events st (ev # evs) = process_events (process_event st ev) evs"

text \<open>
  How the stream ends for the consumer: the generator is exhausted, or it raises (a
  transport error, a non-2xx status, an exception of the parser).
\<close>

datatype stream_end = StreamClosed | StreamRaises py_exc

text \<open>The locals of \<open>start_streaming\<close> at its start.\<close>

definition stream_begin :: "StreamingScreen \<Rightarrow> StreamingScreen" where
  "stream_begin scr = scr\<lparr>content := [], current_block_type := None, event_count := 0\<rparr>"

definition error_content :: "string \<Rightarrow> string \<Rightarrow> string" where
  "error_content cls msg =
     ''\<newline>Streaming Error:\<newline>'' @ cls @ '': '' @ msg @ ''\<newline>''
       @ ''\<newline>Check logs for details''"

text \<open>
  \<open>start_streaming\<close> runs in a worker and \<open>action_cancel\<close> in the message loop
  of the screen, as cooperatively scheduled coroutines: each runs from one await to
  the next without interruption, and the other may run in between.  Each definition
  below is one such piece.

  The handler of \<open>except Exception\<close>, up to its \<open>asyncio.sleep(3)\<close>: it shows
  the error when it finds the widget, and notifies.  \<open>box_found\<close> says whether
  \<open>query_one("#streaming-box")\<close> finds the widget.
\<close>

definition handle_exception :: "StreamingScreen \<Rightarrow> bool \<Rightarrow> string \<Rightarrow> string \<Rightarrow> StreamingScreen" where
  "handle_exception st box_found cls msg =
     (if box_found then st\<lparr>streaming_box := Some (error_content cls msg)\<rparr> else st)
       \<lparr>stream_notifications :=
          stream_notifications st @ [(''Streaming error: '' @ msg, ''error'')],
        sleeps := sleeps st @ [3],
        worker := Sleeping None\<rparr>"

text \<open>
  \<open>start_streaming\<close> from its start to the first await of the loop.
  \<open>box_query\<close> is how \<open>query_one("#streaming-box")\<close> ends: \<open>None\<close> when it
  finds the widget, the exception when it raises.
\<close>

definition start_streaming :: "StreamingScreen \<Rightarrow> py_exc option \<Rightarrow> StreamingScreen" where
  "start_streaming scr box_query =
     (if worker scr \<noteq> NotStarted then scr
      else (case box_query of
              None \<Rightarrow> (stream_begin scr)\<lparr>worker := Streaming\<rparr>
            | Some CancelledError \<Rightarrow> scr\<lparr>worker := WorkerDone\<rparr>
            | Some (Exc cls msg) \<Rightarrow> handle_exception scr False cls msg))"

text \<open>The stream yields an event: one turn of the loop.\<close>

definition deliver :: "StreamingScreen \<Rightarrow> stream_event \<Rightarrow> StreamingScreen" where
  "deliver scr ev = (if worker scr = Streaming then process_event scr ev else scr)"

text \<open>
  The stream ends.  When it is exhausted, \<open>start_streaming\<close> dismisses with the
  assistant turn id, at once if it has counted an event, and after the warning and
  \<open>asyncio.sleep(2)\<close> if it has counted none.  When it raises an exception, the
  handler runs; \<open>CancelledError\<close> is not caught and ends the worker.
\<close>

definition stream_ends :: "StreamingScreen \<Rightarrow> stream_end \<Rightarrow> StreamingScreen" where
  "stream_ends scr e =
     (if worker scr \<noteq> Streaming then scr
      else (case e of
              StreamClosed \<Rightarrow>
                (if event_count scr = 0
                 then (display_update
                         (content_append scr
                           ''\<newline>[yellow]Warning: No events received from stream[/yellow]''))
                       \<lparr>sleeps := sleeps scr @ [2],
                        worker := Sleeping (Some (assistant_turn_id scr))\<rparr>
                 else scr\<lparr>dismissed := dismissed scr @ [Some (assistant_turn_id scr)],
                          worker := WorkerDone\<rparr>)
            | StreamRaises CancelledError \<Rightarrow> scr\<lparr>worker := WorkerDone\<rparr>
            | StreamRaises (Exc cls msg) \<Rightarrow> handle_exception scr True cls msg))"

text \<open>The sleep is over: the \<open>dismiss\<close> that follows it.\<close>

definition wake :: "StreamingScreen \<Rightarrow> StreamingScreen" where
  "wake scr =
     (case worker scr of
        Sleeping v \<Rightarrow> scr\<lparr>dismissed := dismissed scr @ [v], worker := WorkerDone\<rparr>
      | NotStarted \<Rightarrow> scr
      | Streaming \<Rightarrow> scr
      | WorkerDone \<Rightarrow> scr)"

text \<open>
  The worker is cancelled while it is suspended: \<open>CancelledError\<close> is raised at its
  await, in the loop or in a sleep, and neither \<open>except Exception\<close> catches it.
\<close>

definition cancel_worker :: "StreamingScreen \<Rightarrow> StreamingScreen" where
  "cancel_worker scr =
     (case worker scr of
        Sleeping v \<Rightarrow> scr\<lparr>worker := WorkerDone\<rparr>
      | Streaming \<Rightarrow> scr\<lparr>worker := WorkerDone\<rparr>
      | NotStarted \<Rightarrow> scr
      | WorkerDone \<Rightarrow> scr)"

text \<open>
  \<open>action_cancel\<close> up to its await: it calls \<open>interrupt_turn\<close> for the assistant
  turn and is suspended until the call ends.
\<close>

definition action_cancel :: "StreamingScreen \<Rightarrow> StreamingScreen" where
  "action_cancel scr =
     scr\<lparr>interrupt_calls := interrupt_calls scr @ [assistant_turn_id scr],
         cancels_pending := Suc (cancels_pending scr)\<rparr>"

text \<open>
  The call of \<open>interrupt_turn\<close> ends, \<open>None\<close> when it returns and the exception
  when it raises, and a suspended \<open>action_cancel\<close> runs to its end.
\<close>

definition interrupt_ends :: "StreamingScreen \<Rightarrow> py_exc option \<Rightarrow> StreamingScreen" where
  "interrupt_ends scr interrupt_end =
     (if cancels_pending scr = 0 then scr
      else (case interrupt_end of
              None \<Rightarrow>
                scr\<lparr>stream_notifications :=
                       stream_notifications scr @ [(''Streaming cancelled'', ''information'')],
                     dismissed := dismissed scr @ [None],
                     cancels_pending := cancels_pending scr - 1\<rparr>
            | Some CancelledError \<Rightarrow> scr\<lparr>cancels_pending := cancels_pending scr - 1\<rparr>
            | Some (Exc cls msg) \<Rightarrow>
                scr\<lparr>stream_notifications :=
                       stream_notifications scr
                         @ [(''Error cancelling stream: '' @ msg, ''error'')],
                     dismissed := dismissed scr @ [None],
                     cancels_pending := cancels_pending scr - 1\<rparr>))"

text \<open>
  What the specification says a \<open>block_delta\<close> appends, given the current block
  type: the \<open>text_delta\<close> payload for \<open>text_delta\<close> and \<open>thinking_delta\<close> while the
  block type is \<open>text\<close> or \<open>thinking\<close>, the \<open>input_json_delta\<close> payload for
  \<open>input_json_delta\<close> while it is \<open>tool_use\<close> or \<open>tool_result\<close>, nothing for any
  other delta type.
\<close>

definition payload_text :: "string option \<Rightarrow> string" where
  "payload_text v = (case v of None \<Rightarrow> [] | Some s \<Rightarrow> s)"

definition spec_appended :: "string option \<Rightarrow> event_data \<Rightarrow> string" where
  "spec_appended cur d =
     (if d_delta_type d = Some ''text_delta'' \<or> d_delta_type d = Some ''thinking_delta''
      then (if cur = Some ''text'' \<or> cur = Some ''thinking''
            then payload_text (d_text_delta d) else [])
      else if d_delta_type d = Some ''input_json_delta''
      then (if cur = Some ''tool_use'' \<or> cur = Some ''tool_result''
            then payload_text (d_input_json_delta d) else [])
      else [])"

text \<open>The text the widget shows: nothing before the first \<open>display.update\<close>.\<close>

definition shown :: "StreamingScreen \<Rightarrow> string" where
  "shown st = (case streaming_box st of None \<Rightarrow> [] | Some s \<Rightarrow> s)"

text \<open>A screen as \<open>__init__\<close> leaves it, for the assistant turn with the given id.\<close>

definition StreamingScreen_init :: "string \<Rightarrow> StreamingScreen" where
  "StreamingScreen_init tid =
     \<lparr>assistant_turn_id = tid, content = [], current_block_type = None, event_count = 0,
      streaming_box = None, stream_notifications = [], sleeps = [], interrupt_calls = [],
      dismissed = [], worker = NotStarted, cancels_pending = 0\<rparr>"

definition delta_event :: "string option \<Rightarrow> string option \<Rightarrow> string option \<Rightarrow> string option \<Rightarrow> stream_event" where
  "delta_event bt dt txt js =
     \<lparr>event_name = ''block_delta'',
      event_data = \<lparr>d_block_type = bt, d_delta_type = dt, d_text_delta = txt,
                    d_input_json_delta = js\<rparr>\<rparr>"

definition start_event :: "string option \<Rightarrow> stream_event" where
  "start_event bt =
     \<lparr>event_name = ''block_start'',
      event_data = \<lparr>d_block_type = bt, d_delta_type = None, d_text_delta = None,
                    d_input_json_delta = None\<rparr>\<rparr>"

text \<open>A stand-in for \<open>json.loads\<close> in the concrete instances: it knows one document.\<close>

definition loads_fixture :: "string \<Rightarrow> json option" where
  "loads_fixture s = (if s = ''{}'' then Some (JObj []) else None)"

text \<open>Literal turns and pages for the concrete instances below.\<close>

definition turn_fixture :: "string \<Rightarrow> string option \<Rightarrow> string list \<Rightarrow> Turn" where
  "turn_fixture i p sibs =
     \<lparr>id' = i, chat_id = ''chat'', prev_turn_id = p, role = ''user'',
      status = ''completed'', error = None, model = None, input_tokens = None,
      output_tokens = None, created_at = 0, completed_at = None,
      request_params = None, stop_reason = None, response_metadata = None,
      blocks = [], sibling_ids = sibs\<rparr>"

definition page_fixture :: "Turn list \<Rightarrow> PaginatedTurnsResponse" where
  "page_fixture ts = \<lparr>turns = ts, has_more_before = False, has_more_after = False\<rparr>"

section \<open>Sibling index\<close>

lemma list_index_absent: "x \<notin> set xs \<Longrightarrow> list_index xs x = Inl ValueError"
  by (induction xs) auto

lemma list_index_present:
  "x \<in> set xs \<Longrightarrow>
     \<exists>i. list_index xs x = Inr (int i) \<and> i < length xs \<and> xs ! i = x
         \<and> (\<forall>j < i. xs ! j \<noteq> x)"
proof (induction xs)
  case Nil
  then show ?case by simp
next
  case (Cons y ys)
  show ?case
  proof (cases "y = x")
    case True
    then show ?thesis by (intro exI [of _ 0]) simp
  next
    case False
    with Cons.prems have "x \<in> set ys" by simp
    from Cons.IH [OF this] obtain i where
      i: "list_index ys x = Inr (int i)" "i < length ys" "ys ! i = x"
         "\<forall>j < i. ys ! j \<noteq> x"
      by blast
    have "\<forall>j < Suc i. (y # ys) ! j \<noteq> x"
    proof (intro allI impI)
      fix j assume "j < Suc i"
      then show "(y # ys) ! j \<noteq> x"
        using False i(4) by (cases j) auto
    qed
    with False i show ?thesis
      by (intro exI [of _ "Suc i"]) (simp add: add.commute)
  qed
qed

lemma list_index_error: "list_index xs x = Inl e \<Longrightarrow> e = ValueError"
  by (induction xs arbitrary: e) (auto split: if_splits sum.splits)

lemma sibling_index_total: "\<exists>i. sibling_index t = Inr i"
  by (cases "list_index (sibling_ids t) (id' t)")
     (auto simp: sibling_index_def dest: list_index_error)

lemma sibling_index_range:
  assumes "sibling_index t = Inr i"
  shows "0 \<le> i \<and> (i < int (length (sibling_ids t)) \<or> (i = 0 \<and> id' t \<notin> set (sibling_ids t)))"
proof (cases "id' t \<in> set (sibling_ids t)")
  case True
  from list_index_present [OF this] obtain k where
    "list_index (sibling_ids t) (id' t) = Inr (int k)" "k < length (sibling_ids t)"
    by blast
  with assms show ?thesis by (simp add: sibling_index_def)
next
  case False
  with assms list_index_absent [OF False] show ?thesis
    by (simp add: sibling_index_def)
qed

text \<open>
  Claim C9.  For every turn, \<open>sibling_index\<close> returns without raising.  When the
  turn's own id occurs in \<open>sibling_ids\<close> the result is the position of its first
  occurrence (linear search); when it does not occur, also for an empty
  \<open>sibling_ids\<close>, the result is 0.
\<close>

theorem sibling_index_linear_search:
  "(id' t \<in> set (sibling_ids t) \<longrightarrow>
      (\<exists>i < length (sibling_ids t). sibling_index t = Inr (int i)
          \<and> sibling_ids t ! i = id' t \<and> (\<forall>j < i. sibling_ids t ! j \<noteq> id' t)))
   \<and> (id' t \<notin> set (sibling_ids t) \<longrightarrow> sibling_index t = Inr 0)"
proof (intro conjI impI)
  assume "id' t \<in> set (sibling_ids t)"
  from list_index_present [OF this] obtain i where
    "list_index (sibling_ids t) (id' t) = Inr (int i)" "i < length (sibling_ids t)"
    "sibling_ids t ! i = id' t" "\<forall>j < i. sibling_ids t ! j \<noteq> id' t"
    by blast
  then show "\<exists>i < length (sibling_ids t). sibling_index t = Inr (int i)
          \<and> sibling_ids t ! i = id' t \<and> (\<forall>j < i. sibling_ids t ! j \<noteq> id' t)"
    by (auto simp: sibling_index_def)
next
  assume "id' t \<notin> set (sibling_ids t)"
  from list_index_absent [OF this] show "sibling_index t = Inr 0"
    by (simp add: sibling_index_def)
qed

theorem sibling_index_linear_search_witness:
  "sibling_index (turn_fixture ''b'' None [''a'', ''b'', ''c'', ''b'']) = Inr 1
   \<and> sibling_index (turn_fixture ''z'' None [''a'', ''b'']) = Inr 0
   \<and> sibling_index (turn_fixture ''z'' None []) = Inr 0"
  using sibling_index_linear_search [of "turn_fixture ''b'' None [''a'', ''b'', ''c'', ''b'']"]
    sibling_index_linear_search [of "turn_fixture ''z'' None [''a'', ''b'']"]
    sibling_index_linear_search [of "turn_fixture ''z'' None []"]
  by (simp add: sibling_index_def turn_fixture_def)

section \<open>Navigation engine\<close>

lemma py_getitem_in_range:
  "0 \<le> i \<Longrightarrow> i < int (length xs) \<Longrightarrow> py_getitem xs i = Inr (xs ! nat i)"
  by (simp add: py_getitem_def)

text \<open>
  Claim C1.  For every navigation state (current turn \<open>T\<close>, page \<open>P\<close>): up is
  enabled iff \<open>T.prev_turn_id\<close> is not \<open>None\<close> and its getter returns that optional
  id; down is enabled iff \<open>P.turns\<close> has more than one element and its getter returns
  \<open>P.turns[1].id\<close> then and \<open>None\<close> otherwise; with \<open>i\<close> the sibling index of
  \<open>T\<close>, left is enabled iff \<open>i > 0\<close> with target \<open>sibling_ids[i-1]\<close>, right is
  enabled iff \<open>i < len(sibling_ids) - 1\<close> with target \<open>sibling_ids[i+1]\<close>, and a
  disabled direction's getter returns \<open>None\<close>.  No query raises.
\<close>

theorem navigation_queries:
  "can_go_up ns = (prev_turn_id (current ns) \<noteq> None)
   \<and> nav_prev_turn_id ns = prev_turn_id (current ns)
   \<and> can_go_down ns = (length (turns (response ns)) > 1)
   \<and> next_turn_id ns =
         Inr (if length (turns (response ns)) > 1
              then Some (id' (turns (response ns) ! 1)) else None)
   \<and> (\<exists>i. sibling_index (current ns) = Inr i
         \<and> can_go_left ns = Inr (i > 0)
         \<and> prev_sibling_id ns =
               Inr (if i > 0 then Some (sibling_ids (current ns) ! nat (i - 1)) else None)
         \<and> can_go_right ns = Inr (i < int (length (sibling_ids (current ns))) - 1)
         \<and> next_sibling_id ns =
               Inr (if i < int (length (sibling_ids (current ns))) - 1
                    then Some (sibling_ids (current ns) ! nat (i + 1)) else None))"
proof -
  have up: "can_go_up ns = (prev_turn_id (current ns) \<noteq> None)"
    by (simp add: can_go_up_def)
  have upid: "nav_prev_turn_id ns = prev_turn_id (current ns)"
    by (simp add: nav_prev_turn_id_def)
  have down: "can_go_down ns = (length (turns (response ns)) > 1)"
    by (simp add: can_go_down_def)
  have downid: "next_turn_id ns =
         Inr (if length (turns (response ns)) > 1
              then Some (id' (turns (response ns) ! 1)) else None)"
    by (simp add: next_turn_id_def py_getitem_def)
  obtain i where i: "sibling_index (current ns) = Inr i"
    using sibling_index_total by blast
  from sibling_index_range [OF i] have
    lo: "0 \<le> i" and hi: "i < int (length (sibling_ids (current ns))) \<or> i = 0"
    by auto
  have left: "can_go_left ns = Inr (i > 0)"
    by (simp add: can_go_left_def i)
  have right: "can_go_right ns = Inr (i < int (length (sibling_ids (current ns))) - 1)"
    by (simp add: can_go_right_def i)
  have leftid: "prev_sibling_id ns =
      Inr (if i > 0 then Some (sibling_ids (current ns) ! nat (i - 1)) else None)"
  proof (cases "i > 0")
    case True
    with hi have "py_getitem (sibling_ids (current ns)) (i - 1)
        = Inr (sibling_ids (current ns) ! nat (i - 1))"
      by (intro py_getitem_in_range) auto
    with True show ?thesis by (simp add: prev_sibling_id_def i)
  next
    case False
    then show ?thesis by (simp add: prev_sibling_id_def i)
  qed
  have rightid: "next_sibling_id ns =
      Inr (if i < int (length (sibling_ids (current ns))) - 1
           then Some (sibling_ids (current ns) ! nat (i + 1)) else None)"
  proof (cases "i < int (length (sibling_ids (current ns))) - 1")
    case True
    with lo have "py_getitem (sibling_ids (current ns)) (i + 1)
        = Inr (sibling_ids (current ns) ! nat (i + 1))"
      by (intro py_getitem_in_range) auto
    with True show ?thesis by (simp add: next_sibling_id_def i)
  next
    case False
    then show ?thesis by (simp add: next_sibling_id_def i)
  qed
  from up upid down downid i left leftid right rightid show ?thesis
    by blast
qed

theorem navigation_queries_witness:
  "can_go_up \<lparr>current = turn_fixture ''B'' (Some ''A'') [''B'', ''C''],
       response = page_fixture [turn_fixture ''B'' (Some ''A'') [''B'', ''C'']]\<rparr>
   \<and> \<not> can_go_down \<lparr>current = turn_fixture ''B'' (Some ''A'') [''B'', ''C''],
       response = page_fixture [turn_fixture ''B'' (Some ''A'') [''B'', ''C'']]\<rparr>
   \<and> prev_sibling_id \<lparr>current = turn_fixture ''B'' (Some ''A'') [''B'', ''C''],
       response = page_fixture [turn_fixture ''B'' (Some ''A'') [''B'', ''C'']]\<rparr>
       = Inr None
   \<and> next_sibling_id \<lparr>current = turn_fixture ''B'' (Some ''A'') [''B'', ''C''],
       response = page_fixture [turn_fixture ''B'' (Some ''A'') [''B'', ''C'']]\<rparr>
       = Inr (Some ''C'')"
  using navigation_queries [of "\<lparr>current = turn_fixture ''B'' (Some ''A'') [''B'', ''C''],
       response = page_fixture [turn_fixture ''B'' (Some ''A'') [''B'', ''C'']]\<rparr>"]
  by (simp add: can_go_up_def can_go_down_def prev_sibling_id_def next_sibling_id_def
      sibling_index_def py_getitem_def turn_fixture_def page_fixture_def)

section \<open>Navigation controller: one navigation\<close>

text \<open>
  Claim C4.  When the fetch of a navigation raises an exception other than a
  cancellation, \<open>_do_navigate\<close> returns normally (nothing propagates), the screen is
  the one before but for one more notification carrying the error, of severity
  \<open>error\<close>: the current turn, the navigation state and what the display shows keep
  their values.
\<close>

theorem navigation_failure_keeps_state:
  "do_navigate st (FetchRaises (Exc cls msg))
     = Inr (st\<lparr>notifications := notifications st @ [(''Navigation error: '' @ msg, ''error'')]\<rparr>)
   \<and> (\<exists>st'. do_navigate st (FetchRaises (Exc cls msg)) = Inr st'
         \<and> current_turn st' = current_turn st \<and> nav_state st' = nav_state st
         \<and> display_box st' = display_box st \<and> input_disabled st' = input_disabled st
         \<and> input_tooltip st' = input_tooltip st)"
  by (simp add: do_navigate_def do_navigate_try_def notify_def)

theorem navigation_failure_keeps_state_witness:
  "do_navigate TurnBrowserScreen_init (FetchRaises (Exc ''ConnectError'' ''refused''))
     = Inr (TurnBrowserScreen_init\<lparr>notifications :=
              [(''Navigation error: refused'', ''error'')]\<rparr>)"
  using navigation_failure_keeps_state [of TurnBrowserScreen_init "''ConnectError''" "''refused''"]
  by (simp add: TurnBrowserScreen_init_def)

text \<open>
  Claim C10.  When the fetch of a navigation succeeds with a page whose \<open>turns\<close> is
  empty, \<open>_do_navigate\<close> returns normally and the screen is exactly the one before:
  no field changes and no notification is raised.
\<close>

theorem navigation_empty_page_noop:
  "turns resp = [] \<Longrightarrow> do_navigate st (FetchOk resp) = Inr st"
  by (simp add: do_navigate_def do_navigate_try_def)

theorem navigation_empty_page_noop_witness:
  "turns (page_fixture []) = []
   \<and> do_navigate (TurnBrowserScreen_init\<lparr>current_turn := Some (turn_fixture ''A'' None [''A''])\<rparr>)
        (FetchOk (page_fixture []))
     = Inr (TurnBrowserScreen_init\<lparr>current_turn := Some (turn_fixture ''A'' None [''A''])\<rparr>)"
  using navigation_empty_page_noop [of "page_fixture []"
      "TurnBrowserScreen_init\<lparr>current_turn := Some (turn_fixture ''A'' None [''A''])\<rparr>"]
  by (simp add: page_fixture_def)

text \<open>
  Claim C8.  On the initial load of a fresh screen, when the fetch returns a page
  whose \<open>turns\<close> is empty, the display box shows the empty-state message, the
  navigation state and the current turn stay unset, and each of the four direction
  actions does nothing (it navigates nowhere and raises nothing).
\<close>

theorem initial_load_empty_chat:
  "turns resp = [] \<Longrightarrow>
     (\<exists>st'. on_mount TurnBrowserScreen_init cid (FetchOk resp) = Inr st'
        \<and> display_box st' = [Markup ''[dim]No turns in this chat yet. Start typing below![/dim]'']
        \<and> nav_state st' = None \<and> current_turn st' = None \<and> notifications st' = []
        \<and> action_navigate_up st' = Inr None \<and> action_navigate_down st' = Inr None
        \<and> action_navigate_left st' = Inr None \<and> action_navigate_right st' = Inr None)"
  by (simp add: on_mount_def on_mount_try_def TurnBrowserScreen_init_def
      action_navigate_up_def action_navigate_down_def action_navigate_left_def
      action_navigate_right_def)

theorem initial_load_empty_chat_witness:
  "turns (page_fixture []) = []
   \<and> on_mount TurnBrowserScreen_init (Some ''chat'') (FetchOk (page_fixture []))
     = Inr (TurnBrowserScreen_init\<lparr>screen_chat_id := Some ''chat'',
          display_box := [Markup ''[dim]No turns in this chat yet. Start typing below![/dim]''],
          input_focused := True\<rparr>)"
  using initial_load_empty_chat [of "page_fixture []" "Some ''chat''"]
  by (simp add: page_fixture_def on_mount_def on_mount_try_def TurnBrowserScreen_init_def)

section \<open>Navigation controller: supersession\<close>

















text \<open>
  The suspension matters once a third request arrives.  Issued while the second is
  still waiting for the first task to settle, it finds that first task in
  \<open>_navigation_task\<close>, waits for it too, and later makes its own task without
  cancelling the one the second request has made meanwhile: two fetches are in
  flight, and the older one can commit last.  Claim C2 is about two navigations and
  does not cover this.
\<close>

lemma third_request_in_window:
  "map task_state (tasks (resume_navigate (resume_navigate (settle
       (navigate_to_turn (navigate_to_turn (navigate_to_turn TurnBrowserScreen_init ''A'') ''B'')
          ''C'') 0) 0) 0))
     = [Cancelled, InFlight, InFlight]
   \<and> map task_target (tasks (resume_navigate (resume_navigate (settle
       (navigate_to_turn (navigate_to_turn (navigate_to_turn TurnBrowserScreen_init ''A'') ''B'')
          ''C'') 0) 0) 0))
     = [''A'', ''B'', ''C'']
   \<and> current_turn (resolve (resolve (resume_navigate (resume_navigate (settle
       (navigate_to_turn (navigate_to_turn (navigate_to_turn TurnBrowserScreen_init ''A'') ''B'')
          ''C'') 0) 0) 0) 2
          (FetchOk (page_fixture [turn_fixture ''C'' (Some ''A'') [''C'']]))) 1
          (FetchOk (page_fixture [turn_fixture ''B'' (Some ''A'') [''B'']])))
     = Some (turn_fixture ''B'' (Some ''A'') [''B''])"
  by code_simp

section \<open>Stream consumer: rendering\<close>

lemma content_on_block_start: "prefix (content st) (content (on_block_start st d))"
  by (simp add: on_block_start_def display_update_def content_append_def)

lemma content_delta_switch: "prefix (content st) (content (delta_switch st d))"
  by (simp add: delta_switch_def display_update_def content_append_def)

lemma content_delta_payload: "prefix (content st) (content (delta_payload st d))"
  by (simp add: delta_payload_def display_update_def content_append_def)

lemma content_process_event: "prefix (content st) (content (process_event st ev))"
proof -
  have "prefix (content st) (content (on_block_delta (st\<lparr>event_count := event_count st + 1\<rparr>) (event_data ev)))"
    using content_delta_switch [of "st\<lparr>event_count := event_count st + 1\<rparr>" "event_data ev"]
      content_delta_payload [of "delta_switch (st\<lparr>event_count := event_count st + 1\<rparr>) (event_data ev)" "event_data ev"]
    by (simp add: on_block_delta_def)
  moreover have "prefix (content st) (content (on_block_start (st\<lparr>event_count := event_count st + 1\<rparr>) (event_data ev)))"
    using content_on_block_start [of "st\<lparr>event_count := event_count st + 1\<rparr>" "event_data ev"] by simp
  ultimately show ?thesis by (simp add: process_event_def)
qed

lemma shown_cases:
  "shown (process_event st ev) = shown st \<or> shown (process_event st ev) = content (process_event st ev)"
  by (auto simp: process_event_def on_block_start_def on_block_delta_def delta_switch_def
      delta_payload_def display_update_def content_append_def shown_def)

lemma process_events_snoc: "process_events st (evs @ [ev]) = process_event (process_events st evs) ev"
  by (induction evs arbitrary: st) auto

lemma box_ok_step: "prefix (shown st) (content st) \<Longrightarrow> prefix (shown (process_event st ev)) (content (process_event st ev))"
  using shown_cases [of st ev] content_process_event [of st ev]
  by (metis prefix_order.order_refl prefix_order.trans)

lemma box_ok_run: "prefix (shown st) (content st) \<Longrightarrow> prefix (shown (process_events st evs)) (content (process_events st evs))"
  by (induction evs arbitrary: st) (auto dest: box_ok_step)

lemma shown_step: "prefix (shown st) (content st) \<Longrightarrow> prefix (shown st) (shown (process_event st ev))"
  using shown_cases [of st ev] content_process_event [of st ev]
  by (metis prefix_order.order_refl prefix_order.trans)

text \<open>
  Claim C3.  Rendering is append-only.  After each further event the accumulated
  transcript \<open>content\<close> has the transcript before that event as a prefix, so its
  length does not decrease and nothing rendered is retracted or re-ordered; and when
  the widget showed a prefix of the transcript at the start (it shows nothing on a
  fresh screen), what the widget shows after the event extends what it showed before.
\<close>

theorem rendering_append_only:
  "prefix (content (process_events st evs)) (content (process_events st (evs @ [ev])))
   \<and> length (content (process_events st evs)) \<le> length (content (process_events st (evs @ [ev])))
   \<and> (prefix (shown st) (content st) \<longrightarrow>
        prefix (shown (process_events st evs)) (shown (process_events st (evs @ [ev]))))"
proof -
  have step: "prefix (content (process_events st evs)) (content (process_events st (evs @ [ev])))"
    by (simp add: process_events_snoc content_process_event)
  then have len: "length (content (process_events st evs))
      \<le> length (content (process_events st (evs @ [ev])))"
    by (rule prefix_length_le)
  have box: "prefix (shown (process_events st evs)) (shown (process_events st (evs @ [ev])))"
    if "prefix (shown st) (content st)"
    using shown_step [OF box_ok_run [OF that, of evs], of ev] by (simp add: process_events_snoc)
  from step len box show ?thesis by blast
qed

theorem rendering_append_only_witness:
  "content (process_events (StreamingScreen_init ''t'') [start_event (Some ''text'')])
      = ''[text]\<newline>''
   \<and> content (process_events (StreamingScreen_init ''t'')
        ([start_event (Some ''text'')] @ [delta_event None (Some ''text_delta'') (Some ''Hi'') None]))
      = ''[text]\<newline>Hi''
   \<and> prefix (shown (process_events (StreamingScreen_init ''t'') [start_event (Some ''text'')]))
        (shown (process_events (StreamingScreen_init ''t'')
          ([start_event (Some ''text'')] @ [delta_event None (Some ''text_delta'') (Some ''Hi'') None])))"
  using rendering_append_only [of "StreamingScreen_init ''t''" "[start_event (Some ''text'')]"
      "delta_event None (Some ''text_delta'') (Some ''Hi'') None"]
  by (simp add: StreamingScreen_init_def start_event_def delta_event_def process_event_def
      on_block_start_def on_block_delta_def delta_switch_def delta_payload_def
      display_update_def content_append_def block_label_def str_truthy_def shown_def
      strip_control_codes_def)

lemma strip_control_codes_Nil: "strip_control_codes [] = []"
  by (simp add: strip_control_codes_def)

lemma delta_payload_content:
  "content (delta_payload st d)
     = content st @ strip_control_codes (spec_appended (current_block_type st) d)"
  by (auto simp: delta_payload_def spec_appended_def payload_text_def display_update_def
      content_append_def str_truthy_def strip_control_codes_Nil split: option.splits)

lemma spec_appended_gate:
  "spec_appended cur d \<noteq> [] \<Longrightarrow>
     ((d_delta_type d = Some ''text_delta'' \<or> d_delta_type d = Some ''thinking_delta'')
        \<and> (cur = Some ''text'' \<or> cur = Some ''thinking''))
     \<or> (d_delta_type d = Some ''input_json_delta''
        \<and> (cur = Some ''tool_use'' \<or> cur = Some ''tool_result''))"
  unfolding spec_appended_def by (metis (full_types))

lemma delta_payload_block_type:
  "current_block_type (delta_payload st d) = current_block_type st"
  by (simp add: delta_payload_def display_update_def content_append_def)

lemma delta_payload_other:
  "d_delta_type d \<noteq> Some ''text_delta'' \<Longrightarrow> d_delta_type d \<noteq> Some ''thinking_delta'' \<Longrightarrow>
   d_delta_type d \<noteq> Some ''input_json_delta'' \<Longrightarrow> delta_payload st d = st"
  by (simp add: delta_payload_def)

lemma delta_switch_same:
  "\<not> str_truthy (d_block_type d) \<or> d_block_type d = current_block_type st \<Longrightarrow> delta_switch st d = st"
  by (auto simp: delta_switch_def)

text \<open>
  Claim C5.  For a \<open>block_delta\<close> event, what is appended after the label switch
  that the delta's own \<open>block_type\<close> may cause is the text the specification names
  for the block type then current, as the \<open>Text\<close> class takes it (without the
  control codes it removes): the \<open>text_delta\<close> payload for \<open>text_delta\<close> and
  \<open>thinking_delta\<close> only while that type is \<open>text\<close> or \<open>thinking\<close>, the
  \<open>input_json_delta\<close> payload for \<open>input_json_delta\<close> only while it is
  \<open>tool_use\<close> or \<open>tool_result\<close>, and nothing for any other delta type.  So
  whenever the event appends anything after the switch, the delta type and the
  current block type are one of these two pairings.  When the delta carries no
  block type, or the current one, the block type stays and the whole transcript
  grows by exactly that text.  For any other delta type the event does no more
  than the label switch; processing an event always returns.
\<close>

theorem block_delta_payload:
  assumes "event_name ev = ''block_delta''"
  shows "content (process_event st ev)
           = content (delta_switch (st\<lparr>event_count := event_count st + 1\<rparr>) (event_data ev))
             @ strip_control_codes
                 (spec_appended (current_block_type (process_event st ev)) (event_data ev))
       \<and> current_block_type (process_event st ev)
           = current_block_type (delta_switch (st\<lparr>event_count := event_count st + 1\<rparr>) (event_data ev))
       \<and> (content (process_event st ev)
             \<noteq> content (delta_switch (st\<lparr>event_count := event_count st + 1\<rparr>) (event_data ev)) \<longrightarrow>
            ((d_delta_type (event_data ev) = Some ''text_delta''
                \<or> d_delta_type (event_data ev) = Some ''thinking_delta'')
              \<and> (current_block_type (process_event st ev) = Some ''text''
                   \<or> current_block_type (process_event st ev) = Some ''thinking''))
            \<or> (d_delta_type (event_data ev) = Some ''input_json_delta''
              \<and> (current_block_type (process_event st ev) = Some ''tool_use''
                   \<or> current_block_type (process_event st ev) = Some ''tool_result'')))
       \<and> ((\<not> str_truthy (d_block_type (event_data ev))
             \<or> d_block_type (event_data ev) = current_block_type st) \<longrightarrow>
            current_block_type (process_event st ev) = current_block_type st
            \<and> content (process_event st ev)
                = content st
                  @ strip_control_codes (spec_appended (current_block_type st) (event_data ev)))
       \<and> ((d_delta_type (event_data ev) \<noteq> Some ''text_delta''
             \<and> d_delta_type (event_data ev) \<noteq> Some ''thinking_delta''
             \<and> d_delta_type (event_data ev) \<noteq> Some ''input_json_delta'') \<longrightarrow>
            process_event st ev
              = delta_switch (st\<lparr>event_count := event_count st + 1\<rparr>) (event_data ev))"
proof -
  let ?st = "st\<lparr>event_count := event_count st + 1\<rparr>"
  let ?d = "event_data ev"
  have pe: "process_event st ev = delta_payload (delta_switch ?st ?d) ?d"
    using assms by (simp add: process_event_def on_block_delta_def)
  have bt: "current_block_type (process_event st ev) = current_block_type (delta_switch ?st ?d)"
    by (simp add: pe delta_payload_block_type)
  have c: "content (process_event st ev)
      = content (delta_switch ?st ?d)
        @ strip_control_codes (spec_appended (current_block_type (process_event st ev)) ?d)"
    by (simp only: bt) (simp add: pe delta_payload_content)
  have gate: "((d_delta_type ?d = Some ''text_delta'' \<or> d_delta_type ?d = Some ''thinking_delta'')
              \<and> (current_block_type (process_event st ev) = Some ''text''
                   \<or> current_block_type (process_event st ev) = Some ''thinking''))
            \<or> (d_delta_type ?d = Some ''input_json_delta''
              \<and> (current_block_type (process_event st ev) = Some ''tool_use''
                   \<or> current_block_type (process_event st ev) = Some ''tool_result''))"
    if neq: "content (process_event st ev) \<noteq> content (delta_switch ?st ?d)"
  proof -
    have "spec_appended (current_block_type (process_event st ev)) ?d \<noteq> []"
    proof
      assume "spec_appended (current_block_type (process_event st ev)) ?d = []"
      with c have "content (process_event st ev) = content (delta_switch ?st ?d)"
        by (simp add: strip_control_codes_Nil)
      with neq show False by simp
    qed
    from spec_appended_gate [OF this] show ?thesis by blast
  qed
  have same: "current_block_type (process_event st ev) = current_block_type st
        \<and> content (process_event st ev)
            = content st @ strip_control_codes (spec_appended (current_block_type st) ?d)"
    if "\<not> str_truthy (d_block_type ?d) \<or> d_block_type ?d = current_block_type st"
  proof -
    from that have "delta_switch ?st ?d = ?st"
      by (intro delta_switch_same) simp
    then show ?thesis by (simp add: pe delta_payload_content delta_payload_block_type)
  qed
  have other: "process_event st ev = delta_switch ?st ?d"
    if "d_delta_type ?d \<noteq> Some ''text_delta'' \<and> d_delta_type ?d \<noteq> Some ''thinking_delta''
        \<and> d_delta_type ?d \<noteq> Some ''input_json_delta''"
    using that by (simp add: pe delta_payload_other)
  from c bt gate same other show ?thesis by blast
qed

theorem block_delta_payload_witness:
  "event_name (delta_event None (Some ''text_delta'') (Some ''Hi'') None) = ''block_delta''
   \<and> content (process_event ((StreamingScreen_init ''t'')\<lparr>current_block_type := Some ''text''\<rparr>)
        (delta_event None (Some ''text_delta'') (Some ''Hi'') None)) = ''Hi''
   \<and> content (process_event ((StreamingScreen_init ''t'')\<lparr>current_block_type := Some ''text''\<rparr>)
        (delta_event None (Some ''thinking_delta'') (Some [CHR ''a'', CHR 0x0D, CHR ''b'']) None))
       = ''ab''
   \<and> content (process_event ((StreamingScreen_init ''t'')\<lparr>current_block_type := Some ''tool_use''\<rparr>)
        (delta_event None (Some ''text_delta'') (Some ''Hi'') None)) = []
   \<and> content (process_event ((StreamingScreen_init ''t'')\<lparr>current_block_type := Some ''tool_use''\<rparr>)
        (delta_event None (Some ''input_json_delta'') None (Some ''{}''))) = ''{}''
   \<and> content (process_event ((StreamingScreen_init ''t'')\<lparr>current_block_type := Some ''text''\<rparr>)
        (delta_event None (Some ''signature_delta'') (Some ''Hi'') (Some ''{}''))) = []"
  using block_delta_payload [of "delta_event None (Some ''text_delta'') (Some ''Hi'') None"
      "(StreamingScreen_init ''t'')\<lparr>current_block_type := Some ''text''\<rparr>"]
    block_delta_payload [of
      "delta_event None (Some ''thinking_delta'') (Some [CHR ''a'', CHR 0x0D, CHR ''b'']) None"
      "(StreamingScreen_init ''t'')\<lparr>current_block_type := Some ''text''\<rparr>"]
    block_delta_payload [of "delta_event None (Some ''text_delta'') (Some ''Hi'') None"
      "(StreamingScreen_init ''t'')\<lparr>current_block_type := Some ''tool_use''\<rparr>"]
    block_delta_payload [of "delta_event None (Some ''input_json_delta'') None (Some ''{}'')"
      "(StreamingScreen_init ''t'')\<lparr>current_block_type := Some ''tool_use''\<rparr>"]
    block_delta_payload [of "delta_event None (Some ''signature_delta'') (Some ''Hi'') (Some ''{}'')"
      "(StreamingScreen_init ''t'')\<lparr>current_block_type := Some ''text''\<rparr>"]
  by (simp add: StreamingScreen_init_def delta_event_def process_event_def
      on_block_delta_def delta_switch_def delta_payload_def
      display_update_def content_append_def str_truthy_def strip_control_codes_def)

section \<open>Stream consumer: terminal outcome\<close>

lemma process_event_frame:
  "dismissed (process_event st ev) = dismissed st
   \<and> assistant_turn_id (process_event st ev) = assistant_turn_id st
   \<and> interrupt_calls (process_event st ev) = interrupt_calls st
   \<and> worker (process_event st ev) = worker st
   \<and> cancels_pending (process_event st ev) = cancels_pending st"
  by (simp add: process_event_def on_block_start_def on_block_delta_def delta_switch_def
      delta_payload_def display_update_def content_append_def)

text \<open>
  Each coroutine alone reports one result.  A worker in its loop dismisses once
  when the stream ends: with the assistant turn id when the stream is exhausted
  (after the sleep, when no event was counted), with \<open>None\<close> when the stream raises
  an exception.
\<close>

lemma worker_alone:
  assumes "worker scr = Streaming"
  shows "dismissed (wake (stream_ends scr StreamClosed))
           = dismissed scr @ [Some (assistant_turn_id scr)]
       \<and> worker (wake (stream_ends scr StreamClosed)) = WorkerDone
       \<and> dismissed (wake (stream_ends scr (StreamRaises (Exc cls msg))))
           = dismissed scr @ [None]
       \<and> worker (wake (stream_ends scr (StreamRaises (Exc cls msg)))) = WorkerDone
       \<and> dismissed (wake (stream_ends scr (StreamRaises CancelledError))) = dismissed scr"
  using assms
  by (simp add: stream_ends_def wake_def handle_exception_def display_update_def
      content_append_def)

text \<open>
  \<open>action_cancel\<close> alone calls \<open>interrupt_turn\<close> once for the assistant turn and
  dismisses once with \<open>None\<close>, whether the call returns or raises.
\<close>

lemma cancel_alone:
  "interrupt_calls (interrupt_ends (action_cancel scr) None)
      = interrupt_calls scr @ [assistant_turn_id scr]
   \<and> dismissed (interrupt_ends (action_cancel scr) None) = dismissed scr @ [None]
   \<and> interrupt_calls (interrupt_ends (action_cancel scr) (Some (Exc cls msg)))
      = interrupt_calls scr @ [assistant_turn_id scr]
   \<and> dismissed (interrupt_ends (action_cancel scr) (Some (Exc cls msg)))
      = dismissed scr @ [None]"
  by (simp add: interrupt_ends_def action_cancel_def)

text \<open>
  When the worker is cancelled after \<open>action_cancel\<close> has dismissed, as the
  removal of the screen does to a worker still in its loop, the worker reports
  nothing more.
\<close>

lemma cancel_then_worker_cancelled:
  assumes "worker scr = Streaming"
  shows "dismissed (wake (cancel_worker (interrupt_ends (action_cancel scr) None)))
           = dismissed scr @ [None]
       \<and> worker (cancel_worker (interrupt_ends (action_cancel scr) None)) = WorkerDone"
  using assms
  by (simp add: interrupt_ends_def action_cancel_def cancel_worker_def wake_def)

text \<open>
  Claim C6.  The two coroutines together do not keep to one result.  The operator
  cancels while the worker is in its loop: \<open>action_cancel\<close> calls
  \<open>interrupt_turn\<close> and is suspended.  The stream is exhausted before that call
  ends, so \<open>start_streaming\<close> dismisses with the assistant turn id; when the call
  ends, \<open>action_cancel\<close> dismisses again, with \<open>None\<close>.  The screen has reported
  two results for one stream, and the first, which its caller receives, is the turn
  id although the operator cancelled.
\<close>

theorem cancel_race_two_results:
  "dismissed (interrupt_ends (stream_ends (action_cancel
       (deliver (start_streaming (StreamingScreen_init ''t'') None)
          (start_event (Some ''text''))))
       StreamClosed) None)
     = [Some ''t'', None]
   \<and> interrupt_calls (interrupt_ends (stream_ends (action_cancel
       (deliver (start_streaming (StreamingScreen_init ''t'') None)
          (start_event (Some ''text''))))
       StreamClosed) None)
     = [''t'']"
  by (simp add: interrupt_ends_def stream_ends_def action_cancel_def deliver_def
      start_streaming_def stream_begin_def StreamingScreen_init_def start_event_def
      process_event_def on_block_start_def display_update_def content_append_def
      str_truthy_def)

section \<open>Stream parser: malformed frames\<close>

lemma sse_line_data:
  "sse_line loads st (''data: '' @ d) = Inr ((fst st, snd st @ [d]), NoOutput)"
  by (simp add: sse_line_def)

lemma sse_line_event:
  "sse_line loads st (''event: '' @ n) = Inr ((Some n, snd st), NoOutput)"
  by (simp add: sse_line_def)

lemma sse_lines_step:
  "sse_line loads st l = Inr (st', out) \<Longrightarrow>
     sse_lines loads st (l # rest)
       = (out # fst (sse_lines loads st' rest), snd (sse_lines loads st' rest))"
  by (simp add: split_beta)

lemma sse_lines_data:
  "sse_lines loads (et, dl) (map (\<lambda>d. ''data: '' @ d) ds @ rest)
     = (replicate (length ds) NoOutput @ fst (sse_lines loads (et, dl @ ds) rest),
        snd (sse_lines loads (et, dl @ ds) rest))"
proof (induction ds arbitrary: dl)
  case Nil
  then show ?case by simp
next
  case (Cons d ds)
  have line: "sse_line loads (et, dl) (''data: '' @ d) = Inr ((et, dl @ [d]), NoOutput)"
    using sse_line_data [of loads "(et, dl)" d] by simp
  have "sse_lines loads (et, dl) (map (\<lambda>d. ''data: '' @ d) (d # ds) @ rest)
      = sse_lines loads (et, dl) ((''data: '' @ d) # (map (\<lambda>d. ''data: '' @ d) ds @ rest))"
    by simp
  also have "\<dots> = (NoOutput # fst (sse_lines loads (et, dl @ [d]) (map (\<lambda>d. ''data: '' @ d) ds @ rest)),
        snd (sse_lines loads (et, dl @ [d]) (map (\<lambda>d. ''data: '' @ d) ds @ rest)))"
    by (rule sse_lines_step [OF line])
  also have "\<dots> = (replicate (length (d # ds)) NoOutput @ fst (sse_lines loads (et, dl @ d # ds) rest),
        snd (sse_lines loads (et, dl @ d # ds) rest))"
    using Cons.IH [of "dl @ [d]"] by simp
  finally show ?case .
qed

lemma yielded_replicate: "yielded (replicate n NoOutput @ outs) = yielded outs"
  by (induction n) auto

lemma warnings_replicate: "warnings (replicate n NoOutput @ outs) = warnings outs"
  by (induction n) auto

lemma sse_blank_malformed:
  assumes "name \<noteq> []" "ds \<noteq> []" "loads (join_lines ds) = None"
  shows "sse_line loads (Some name, ds) [] = Inr ((None, []), WarnMalformed (join_lines ds))"
  using assms by (simp add: sse_line_def str_truthy_def)

lemma sse_frame_malformed:
  assumes "name \<noteq> []" "ds \<noteq> []" "loads (join_lines ds) = None"
  shows "sse_lines loads (et, []) (sse_frame name ds @ rest)
     = (NoOutput # replicate (length ds) NoOutput @ WarnMalformed (join_lines ds)
            # fst (sse_lines loads (None, []) rest),
        snd (sse_lines loads (None, []) rest))"
proof -
  have ev: "sse_line loads (et, []) (''event: '' @ name) = Inr ((Some name, []), NoOutput)"
    using sse_line_event [of loads "(et, [])" name] by simp
  have blank: "sse_lines loads (Some name, ds) ([] # rest)
      = (WarnMalformed (join_lines ds) # fst (sse_lines loads (None, []) rest),
         snd (sse_lines loads (None, []) rest))"
    using sse_blank_malformed [where name = name and ds = ds and loads = loads] assms
    by (simp add: split_beta)
  have "sse_lines loads (Some name, []) (map (\<lambda>d. ''data: '' @ d) ds @ [] # rest)
      = (replicate (length ds) NoOutput @ WarnMalformed (join_lines ds)
            # fst (sse_lines loads (None, []) rest),
         snd (sse_lines loads (None, []) rest))"
    using sse_lines_data [of loads "Some name" "[]" ds "[] # rest"] blank by simp
  then have "sse_lines loads (et, [])
        ((''event: '' @ name) # (map (\<lambda>d. ''data: '' @ d) ds @ [] # rest))
      = (NoOutput # replicate (length ds) NoOutput @ WarnMalformed (join_lines ds)
            # fst (sse_lines loads (None, []) rest),
         snd (sse_lines loads (None, []) rest))"
    using sse_lines_step [OF ev, of "map (\<lambda>d. ''data: '' @ d) ds @ [] # rest"] by simp
  then show ?thesis by (simp add: sse_frame_def)
qed

text \<open>
  Claim C7.  A frame of the protocol (an \<open>event:\<close> line with a name, one or more
  \<open>data:\<close> lines, a blank line) whose joined data is not valid JSON is dropped: the
  parser logs one warning for it, yields no event for it and does not raise, and the
  lines after the frame are parsed as from a fresh parser, so that the events, the
  warnings and the end of the stream after the frame are those of the rest alone.
\<close>

theorem malformed_frame_dropped:
  assumes "name \<noteq> []" "ds \<noteq> []" "loads (join_lines ds) = None"
  shows "yielded (fst (sse_lines loads (et, []) (sse_frame name ds @ rest)))
           = yielded (fst (sse_lines loads (None, []) rest))
       \<and> warnings (fst (sse_lines loads (et, []) (sse_frame name ds @ rest)))
           = join_lines ds # warnings (fst (sse_lines loads (None, []) rest))
       \<and> snd (sse_lines loads (et, []) (sse_frame name ds @ rest))
           = snd (sse_lines loads (None, []) rest)"
  using sse_frame_malformed [where name = name and ds = ds and loads = loads
      and et = et and rest = rest] assms
  by (simp add: yielded_replicate warnings_replicate)

theorem malformed_frame_dropped_witness:
  "''block_start'' \<noteq> [] \<and> [''{bad''] \<noteq> [] \<and> loads_fixture (join_lines [''{bad'']) = None
   \<and> yielded (fst (sse_lines loads_fixture (None, [])
         (sse_frame ''block_start'' [''{bad''] @ sse_frame ''turn_complete'' [''{}''])))
       = [(''turn_complete'', [])]
   \<and> warnings (fst (sse_lines loads_fixture (None, [])
         (sse_frame ''block_start'' [''{bad''] @ sse_frame ''turn_complete'' [''{}''])))
       = [''{bad'']
   \<and> snd (sse_lines loads_fixture (None, [])
         (sse_frame ''block_start'' [''{bad''] @ sse_frame ''turn_complete'' [''{}'']))
       = None"
  using malformed_frame_dropped [of "''block_start''" "[''{bad'']" loads_fixture None
      "sse_frame ''turn_complete'' [''{}'']"]
  by (simp add: loads_fixture_def sse_frame_def sse_line_def str_truthy_def log_event_def)

end
